theory Spec2Isabelle
  imports Main
begin

section \<open>Data model\<close>

text \<open>
  The alert lifecycle engine of AtomicAds, embedded shallowly. A JavaScript \<open>Date\<close> is
  the millisecond timestamp of a valid date, an \<open>ObjectId\<close> is its string form, and a
  field that may hold \<open>null\<close> or \<open>undefined\<close> is an \<open>option\<close>. Every \<open>new Date()\<close> and
  \<open>Date.now()\<close> of the source is a parameter of the function that reads the clock, one
  parameter per reading, so that nothing is assumed about how far the clock moves between
  two readings. Console output is not part of the model.
\<close>

type_synonym time = int
type_synonym objectId = string

text \<open>\<open>IUserAlertPreference\<close> (types/index.ts) with the schema of the model file.\<close>

record UserAlertPreference =
  userId :: objectId
  alertId :: objectId
  isRead :: bool
  isSnoozed :: bool
  snoozedUntil :: "time option"
  lastReminderSent :: "time option"
  reminderCount :: int

section \<open>The preference state machine\<close>

datatype AlertState = UnreadState | ReadState | SnoozedState

text \<open>\<open>hours * 60 * 60 * 1000\<close>, for a whole number of hours.\<close>

definition hoursToMs :: "int \<Rightarrow> int" where
  "hoursToMs hours = hours * 60 * 60 * 1000"

subsection \<open>UnreadState\<close>

definition UnreadState_markAsRead :: "UserAlertPreference \<Rightarrow> UserAlertPreference" where
  "UnreadState_markAsRead p = p\<lparr>isRead := True, isSnoozed := False, snoozedUntil := None\<rparr>"

definition UnreadState_snooze :: "UserAlertPreference \<Rightarrow> int \<Rightarrow> time \<Rightarrow> UserAlertPreference" where
  "UnreadState_snooze p hours now =
     p\<lparr>isSnoozed := True, snoozedUntil := Some (now + hoursToMs hours)\<rparr>"

definition UnreadState_unsnooze :: "UserAlertPreference \<Rightarrow> UserAlertPreference" where
  "UnreadState_unsnooze p = p\<lparr>isSnoozed := False, snoozedUntil := None\<rparr>"

definition UnreadState_canReceiveReminder :: "UserAlertPreference \<Rightarrow> time \<Rightarrow> bool" where
  "UnreadState_canReceiveReminder p now =
     (let isCurrentlySnoozed =
            (isSnoozed p \<and> (case snoozedUntil p of None \<Rightarrow> False | Some u \<Rightarrow> now < u))
      in \<not> isCurrentlySnoozed)"

subsection \<open>ReadState\<close>

definition ReadState_markAsRead :: "UserAlertPreference \<Rightarrow> UserAlertPreference" where
  "ReadState_markAsRead p = p"

definition ReadState_snooze :: "UserAlertPreference \<Rightarrow> int \<Rightarrow> time \<Rightarrow> UserAlertPreference" where
  "ReadState_snooze p hours now = p"

definition ReadState_unsnooze :: "UserAlertPreference \<Rightarrow> UserAlertPreference" where
  "ReadState_unsnooze p = p\<lparr>isSnoozed := False, snoozedUntil := None\<rparr>"

definition ReadState_canReceiveReminder :: "UserAlertPreference \<Rightarrow> bool" where
  "ReadState_canReceiveReminder p = False"

subsection \<open>SnoozedState\<close>

definition SnoozedState_markAsRead :: "UserAlertPreference \<Rightarrow> UserAlertPreference" where
  "SnoozedState_markAsRead p = p\<lparr>isRead := True, isSnoozed := False, snoozedUntil := None\<rparr>"

definition SnoozedState_snooze :: "UserAlertPreference \<Rightarrow> int \<Rightarrow> time \<Rightarrow> UserAlertPreference" where
  "SnoozedState_snooze p hours now = p\<lparr>snoozedUntil := Some (now + hoursToMs hours)\<rparr>"

definition SnoozedState_unsnooze :: "UserAlertPreference \<Rightarrow> UserAlertPreference" where
  "SnoozedState_unsnooze p = p\<lparr>isSnoozed := False, snoozedUntil := None\<rparr>"

text \<open>The method returns its verdict and mutates the preference: the pair of both.\<close>

definition SnoozedState_canReceiveReminder ::
  "UserAlertPreference \<Rightarrow> time \<Rightarrow> bool \<times> UserAlertPreference" where
  "SnoozedState_canReceiveReminder p now =
     (let isSnoozeExpired = (case snoozedUntil p of None \<Rightarrow> True | Some u \<Rightarrow> u \<le> now)
      in if isSnoozeExpired then (True, SnoozedState_unsnooze p) else (False, p))"

subsection \<open>AlertPreferenceStateContext\<close>

definition isCurrentlySnoozed :: "UserAlertPreference \<Rightarrow> time \<Rightarrow> bool" where
  "isCurrentlySnoozed p now =
     (isSnoozed p \<and> (case snoozedUntil p of None \<Rightarrow> False | Some u \<Rightarrow> now < u))"

definition getCurrentState :: "UserAlertPreference \<Rightarrow> time \<Rightarrow> AlertState" where
  "getCurrentState p now =
     (if isRead p then ReadState
      else if isSnoozed p \<and> isCurrentlySnoozed p now then SnoozedState
      else UnreadState)"

text \<open>
  The context's operations derive the state at the reading \<open>now\<close> and delegate; where the
  state's method reads the clock again, that second reading is \<open>now'\<close>.
\<close>

definition markAsRead :: "UserAlertPreference \<Rightarrow> time \<Rightarrow> UserAlertPreference" where
  "markAsRead p now =
     (case getCurrentState p now of
        UnreadState \<Rightarrow> UnreadState_markAsRead p
      | ReadState \<Rightarrow> ReadState_markAsRead p
      | SnoozedState \<Rightarrow> SnoozedState_markAsRead p)"

definition snooze :: "UserAlertPreference \<Rightarrow> int \<Rightarrow> time \<Rightarrow> time \<Rightarrow> UserAlertPreference" where
  "snooze p hours now now' =
     (case getCurrentState p now of
        UnreadState \<Rightarrow> UnreadState_snooze p hours now'
      | ReadState \<Rightarrow> ReadState_snooze p hours now'
      | SnoozedState \<Rightarrow> SnoozedState_snooze p hours now')"

definition unsnooze :: "UserAlertPreference \<Rightarrow> time \<Rightarrow> UserAlertPreference" where
  "unsnooze p now =
     (case getCurrentState p now of
        UnreadState \<Rightarrow> UnreadState_unsnooze p
      | ReadState \<Rightarrow> ReadState_unsnooze p
      | SnoozedState \<Rightarrow> SnoozedState_unsnooze p)"

definition canReceiveReminder ::
  "UserAlertPreference \<Rightarrow> time \<Rightarrow> time \<Rightarrow> bool \<times> UserAlertPreference" where
  "canReceiveReminder p now now' =
     (case getCurrentState p now of
        UnreadState \<Rightarrow> (UnreadState_canReceiveReminder p now', p)
      | ReadState \<Rightarrow> (ReadState_canReceiveReminder p, p)
      | SnoozedState \<Rightarrow> SnoozedState_canReceiveReminder p now')"

definition getStateName :: "UserAlertPreference \<Rightarrow> time \<Rightarrow> string" where
  "getStateName p now =
     (if isRead p then ''READ''
      else if isSnoozed p \<and> isCurrentlySnoozed p now then ''SNOOZED''
      else ''UNREAD'')"

definition processAutomaticTransitions ::
  "UserAlertPreference \<Rightarrow> time \<Rightarrow> time \<Rightarrow> bool \<times> UserAlertPreference" where
  "processAutomaticTransitions p now now' =
     (if isSnoozed p \<and> \<not> isCurrentlySnoozed p now then (True, unsnooze p now') else (False, p))"

definition getAvailableActions :: "UserAlertPreference \<Rightarrow> time \<Rightarrow> string list" where
  "getAvailableActions p now =
     (if \<not> isRead p then [''markAsRead''] else []) @
     (if \<not> isRead p \<and> \<not> isCurrentlySnoozed p now then [''snooze''] else []) @
     (if isSnoozed p then [''unsnooze''] else [])"

section \<open>The preference schema: pre-save hook and instance methods\<close>

definition preSave :: "UserAlertPreference \<Rightarrow> time \<Rightarrow> UserAlertPreference" where
  "preSave p now =
     (let p1 = (if isSnoozed p \<and> (case snoozedUntil p of None \<Rightarrow> False | Some u \<Rightarrow> u \<le> now)
                then p\<lparr>isSnoozed := False, snoozedUntil := None\<rparr> else p)
      in if \<not> isSnoozed p1 then p1\<lparr>snoozedUntil := None\<rparr> else p1)"



subsection \<open>Saving a preference\<close>

text \<open>
  The collection of stored preferences, with its unique index on \<open>(userId, alertId)\<close>.
  \<open>save\<close> runs the \<open>pre('save')\<close> hook at the clock reading \<open>now\<close> and then writes the
  document over the stored one with the same key, or inserts it. A failure of the storage
  layer itself is not modelled.
\<close>

type_synonym preferences = "UserAlertPreference list"

definition sameDocument :: "UserAlertPreference \<Rightarrow> UserAlertPreference \<Rightarrow> bool" where
  "sameDocument p q = (userId p = userId q \<and> alertId p = alertId q)"

fun writeDocument :: "UserAlertPreference \<Rightarrow> preferences \<Rightarrow> preferences" where
  "writeDocument p [] = [p]"
| "writeDocument p (q # qs) = (if sameDocument p q then p # qs else q # writeDocument p qs)"

definition save ::
  "UserAlertPreference \<Rightarrow> time \<Rightarrow> preferences \<Rightarrow> UserAlertPreference \<times> preferences" where
  "save p now db = (let saved = preSave p now in (saved, writeDocument saved db))"

text \<open>
  The schema's instance methods assign fields and save. \<open>now\<close> is the reading the method
  itself takes, where it takes one, and \<open>saveTime\<close> the reading of the hook.
\<close>

definition methods_markAsRead ::
  "UserAlertPreference \<Rightarrow> time \<Rightarrow> preferences \<Rightarrow> UserAlertPreference \<times> preferences" where
  "methods_markAsRead p saveTime db = save (p\<lparr>isRead := True\<rparr>) saveTime db"

definition methods_markAsUnread ::
  "UserAlertPreference \<Rightarrow> time \<Rightarrow> preferences \<Rightarrow> UserAlertPreference \<times> preferences" where
  "methods_markAsUnread p saveTime db = save (p\<lparr>isRead := False\<rparr>) saveTime db"

definition methods_snooze ::
  "UserAlertPreference \<Rightarrow> int \<Rightarrow> time \<Rightarrow> time \<Rightarrow> preferences
     \<Rightarrow> UserAlertPreference \<times> preferences" where
  "methods_snooze p hours now saveTime db =
     save (p\<lparr>isSnoozed := True, snoozedUntil := Some (now + hoursToMs hours)\<rparr>) saveTime db"

definition methods_unsnooze ::
  "UserAlertPreference \<Rightarrow> time \<Rightarrow> preferences \<Rightarrow> UserAlertPreference \<times> preferences" where
  "methods_unsnooze p saveTime db =
     save (p\<lparr>isSnoozed := False, snoozedUntil := None\<rparr>) saveTime db"

definition recordReminderSent ::
  "UserAlertPreference \<Rightarrow> time \<Rightarrow> time \<Rightarrow> preferences \<Rightarrow> UserAlertPreference \<times> preferences" where
  "recordReminderSent p now saveTime db =
     save (p\<lparr>lastReminderSent := Some now, reminderCount := reminderCount p + 1\<rparr>) saveTime db"

section \<open>Asynchronous operations\<close>

text \<open>
  An \<open>async\<close> function is a task: a function from the state it runs in to its outcome,
  the thrown value on the left or the value it resolves to on the right, and the state it
  leaves. \<open>promiseAll\<close> is \<open>Promise.all\<close> over tasks that \<open>map\<close> has already started: every
  task runs, whatever the others do, and the result is rejected when one of them was. The
  tasks are run one after the other in the order \<open>map\<close> started them, each to its end;
  the interleaving of the event loop is not modelled.
\<close>

datatype exn = Error string

type_synonym ('a, 's) task = "'s \<Rightarrow> (exn + 'a) \<times> 's"

definition resolve :: "'a \<Rightarrow> ('a, 's) task" where
  "resolve v s = (Inr v, s)"

definition throw :: "exn \<Rightarrow> ('a, 's) task" where
  "throw e s = (Inl e, s)"

definition await :: "('a, 's) task \<Rightarrow> ('a \<Rightarrow> ('b, 's) task) \<Rightarrow> ('b, 's) task" where
  "await m k s = (case m s of (Inl e, s') \<Rightarrow> (Inl e, s') | (Inr v, s') \<Rightarrow> k v s')"

definition tryCatch :: "('a, 's) task \<Rightarrow> (exn \<Rightarrow> ('a, 's) task) \<Rightarrow> ('a, 's) task" where
  "tryCatch body handler s =
     (case body s of (Inl e, s') \<Rightarrow> handler e s' | (Inr v, s') \<Rightarrow> (Inr v, s'))"

fun promiseAll :: "('a, 's) task list \<Rightarrow> ('a list, 's) task" where
  "promiseAll [] s = (Inr [], s)"
| "promiseAll (t # ts) s =
     (case t s of (r, s') \<Rightarrow>
        (case promiseAll ts s' of (rs, s'') \<Rightarrow>
           ((case r of
               Inl e \<Rightarrow> Inl e
             | Inr v \<Rightarrow> (case rs of Inl e \<Rightarrow> Inl e | Inr vs \<Rightarrow> Inr (v # vs))), s'')))"

section \<open>Alerts, users and teams\<close>

datatype AlertSeverity = INFO | WARNING | CRITICAL
datatype DeliveryType = IN_APP | EMAIL | SMS
datatype VisibilityType = ORGANIZATION | TEAM | USER
datatype AlertStatus = ACTIVE | EXPIRED | ARCHIVED
datatype AlertAction = Created | Updated | Reminder | Expired

record IUser =
  user_id :: objectId
  user_name :: string
  user_teamId :: "objectId option"
  user_isActive :: bool

record ITeam =
  team_id :: objectId
  team_name :: string

record Visibility =
  visibilityType :: VisibilityType
  targetIds :: "objectId list"

text \<open>
  The \<open>_context\<close> that \<open>notifyObserversWithContext\<close> attaches: the action and, for a
  reminder, the \<open>reminderCount\<close> metadata.
\<close>

record AlertContext =
  action :: AlertAction
  metadata :: "nat option"

record IAlert =
  alert_id :: objectId
  title :: string
  message :: string
  severity :: AlertSeverity
  deliveryType :: DeliveryType
  reminderFrequencyMinutes :: int
  startTime :: time
  expiryTime :: "time option"
  isActive :: bool
  isReminderEnabled :: bool
  visibility :: Visibility
  createdBy :: objectId
  status :: AlertStatus
  alert_context :: "AlertContext option"

section \<open>AlertSubject: the event fan-out\<close>

type_synonym 's IAlertObserver = "IAlert \<Rightarrow> IUser list \<Rightarrow> (unit, 's) task"

text \<open>The subject is its list of registered observers.\<close>

definition addObserver :: "'s IAlertObserver list \<Rightarrow> 's IAlertObserver \<Rightarrow> 's IAlertObserver list" where
  "addObserver observers observer = observers @ [observer]"

definition notifyObservers ::
  "'s IAlertObserver list \<Rightarrow> IAlert \<Rightarrow> IUser list \<Rightarrow> (unit, 's) task" where
  "notifyObservers observers alert users =
     (if length observers = 0 then resolve ()
      else
        tryCatch
          (await
             (promiseAll
                (map (\<lambda>observer. tryCatch (observer alert users) (\<lambda>error. resolve ()))
                   observers))
             (\<lambda>_. resolve ()))
          (\<lambda>error. resolve ()))"

definition notifyObserversWithContext ::
  "'s IAlertObserver list \<Rightarrow> IAlert \<Rightarrow> IUser list \<Rightarrow> AlertContext \<Rightarrow> (unit, 's) task" where
  "notifyObserversWithContext observers alert users ctx =
     (let alertWithContext = alert\<lparr>alert_context := Some ctx\<rparr>
      in notifyObservers observers alertWithContext users)"

section \<open>NotificationStrategy: dispatch through a channel\<close>

record 's INotificationChannel =
  send :: "IAlert \<Rightarrow> IUser \<Rightarrow> (bool, 's) task"
  getType :: DeliveryType

type_synonym 's channels = "DeliveryType \<rightharpoonup> 's INotificationChannel"

definition addChannel :: "'s channels \<Rightarrow> 's INotificationChannel \<Rightarrow> 's channels" where
  "addChannel channels channel = channels(getType channel \<mapsto> channel)"

definition removeChannel :: "'s channels \<Rightarrow> DeliveryType \<Rightarrow> 's channels" where
  "removeChannel channels type = channels(type := None)"

definition sendNotification ::
  "'s channels \<Rightarrow> IAlert \<Rightarrow> IUser \<Rightarrow> DeliveryType \<Rightarrow> (bool, 's) task" where
  "sendNotification channels alert user type =
     (case channels type of
        None \<Rightarrow> resolve False
      | Some channel \<Rightarrow>
          tryCatch
            (await (send channel alert user) (\<lambda>success. resolve success))
            (\<lambda>error. resolve False))"

text \<open>
  The locals \<open>results\<close>, \<open>successful\<close> and \<open>failed\<close> of \<open>sendBulkNotifications\<close>, which the
  per-recipient closures update.
\<close>

record BulkResult =
  successful :: nat
  failed :: nat
  results :: "(IUser \<times> bool) list"

definition batchSize :: nat where
  "batchSize = 10"

definition slice :: "'a list \<Rightarrow> nat \<Rightarrow> nat \<Rightarrow> 'a list" where
  "slice xs i j = take (j - i) (drop i xs)"

text \<open>The closure of \<open>batch.map\<close>, on the state paired with the locals.\<close>

definition bulkSendOne ::
  "'s channels \<Rightarrow> IAlert \<Rightarrow> DeliveryType \<Rightarrow> IUser \<Rightarrow> (IUser \<times> bool, 's \<times> BulkResult) task" where
  "bulkSendOne channels alert type user = (\<lambda>(s, acc).
     (case sendNotification channels alert user type s of
        (Inl e, s') \<Rightarrow> (Inl e, (s', acc))
      | (Inr success, s') \<Rightarrow>
          (Inr (user, success),
           (s', acc\<lparr>results := results acc @ [(user, success)],
                   successful := (if success then successful acc + 1 else successful acc),
                   failed := (if success then failed acc else failed acc + 1)\<rparr>))))"

text \<open>
  The \<open>for\<close> loop over the batches, from index \<open>i\<close>. The pause between two batches only
  passes time.
\<close>

function bulkBatches ::
  "'s channels \<Rightarrow> IAlert \<Rightarrow> IUser list \<Rightarrow> DeliveryType \<Rightarrow> nat \<Rightarrow> (unit, 's \<times> BulkResult) task" where
  "bulkBatches channels alert users type i st =
     (if i < length users then
        (let batch = slice users i (i + batchSize) in
         case promiseAll (map (bulkSendOne channels alert type) batch) st of
           (Inl e, st') \<Rightarrow> (Inl e, st')
         | (Inr _, st') \<Rightarrow> bulkBatches channels alert users type (i + batchSize) st')
      else (Inr (), st))"
  by pat_completeness auto
termination
  by (relation "measure (\<lambda>(channels, alert, users, type, i, st). length users - i)")
     (auto simp: batchSize_def)

definition sendBulkNotifications ::
  "'s channels \<Rightarrow> IAlert \<Rightarrow> IUser list \<Rightarrow> DeliveryType \<Rightarrow> (BulkResult, 's) task" where
  "sendBulkNotifications channels alert users type s =
     (case bulkBatches channels alert users type 0
             (s, \<lparr>successful = 0, failed = 0, results = []\<rparr>) of
        (Inl e, (s', acc)) \<Rightarrow> (Inl e, s')
      | (Inr _, (s', acc)) \<Rightarrow> (Inr acc, s'))"

text \<open>
  What the channel does for each recipient, in the words of the specification: the sends
  to the recipients in their order, each with its outcome (true when the send returned
  true, false when it returned false or threw), and the state after the last.
\<close>

fun channelOutcomes ::
  "'s INotificationChannel \<Rightarrow> IAlert \<Rightarrow> IUser list \<Rightarrow> 's \<Rightarrow> bool list \<times> 's" where
  "channelOutcomes channel alert [] s = ([], s)"
| "channelOutcomes channel alert (u # us) s =
     (case send channel alert u s of (r, s') \<Rightarrow>
        (case channelOutcomes channel alert us s' of (outs, s'') \<Rightarrow>
           ((r = Inr True) # outs, s'')))"

section \<open>AlertService\<close>

text \<open>
  The state the service runs in: the collections of the database and, in \<open>world\<close>,
  everything else that channels and observers touch.
\<close>

record 'w System =
  Teams :: "ITeam list"
  Users :: "IUser list"
  Alerts :: "IAlert list"
  UserAlertPreferences :: preferences
  world :: 'w

record 'w AlertService =
  alertSubject :: "'w System IAlertObserver list"
  notificationStrategy :: "'w System channels"

record CreateAlertRequest =
  req_title :: string
  req_message :: string
  req_severity :: AlertSeverity
  req_deliveryType :: DeliveryType
  req_reminderFrequencyMinutes :: "int option"
  req_startTime :: "time option"
  req_expiryTime :: "time option"
  req_isReminderEnabled :: "bool option"
  req_visibility :: Visibility

subsection \<open>Queries\<close>

text \<open>\<open>Team.find({ _id: { $in: ids } })\<close> and \<open>User.find({ _id: { $in: ids } })\<close>.\<close>

definition Team_find_in :: "objectId list \<Rightarrow> (ITeam list, 'w System) task" where
  "Team_find_in ids db = (Inr (filter (\<lambda>t. team_id t \<in> set ids) (Teams db)), db)"

definition User_find_in :: "objectId list \<Rightarrow> (IUser list, 'w System) task" where
  "User_find_in ids db = (Inr (filter (\<lambda>u. user_id u \<in> set ids) (Users db)), db)"

subsection \<open>validateVisibilityTargets\<close>

definition validateVisibilityTargets :: "Visibility \<Rightarrow> (unit, 'w System) task" where
  "validateVisibilityTargets v =
     (if visibilityType v = ORGANIZATION then resolve ()
      else
        await
          (if visibilityType v = TEAM then
             await (Team_find_in (targetIds v)) (\<lambda>found.
               if length found \<noteq> length (targetIds v)
               then throw (Error ''One or more team IDs are invalid'')
               else resolve ())
           else resolve ())
          (\<lambda>_.
             if visibilityType v = USER then
               await (User_find_in (targetIds v)) (\<lambda>found.
                 if length found \<noteq> length (targetIds v)
                 then throw (Error ''One or more user IDs are invalid'')
                 else resolve ())
             else resolve ()))"

subsection \<open>getTargetUsers\<close>

text \<open>
  The filter that removes duplicates keeps a user when no earlier element of the list has
  the same id: \<open>findIndex\<close> returns the first position.
\<close>

fun uniqueUsers :: "objectId list \<Rightarrow> IUser list \<Rightarrow> IUser list" where
  "uniqueUsers seen [] = []"
| "uniqueUsers seen (u # us) =
     (if user_id u \<in> set seen then uniqueUsers seen us
      else u # uniqueUsers (user_id u # seen) us)"

definition getTargetUsers :: "IAlert \<Rightarrow> (IUser list, 'w System) task" where
  "getTargetUsers alert db =
     (let targetUsers =
        (case visibilityType (visibility alert) of
           ORGANIZATION \<Rightarrow> filter user_isActive (Users db)
         | TEAM \<Rightarrow>
             concat (map (\<lambda>teamId.
                       filter (\<lambda>u. user_teamId u = Some teamId \<and> user_isActive u) (Users db))
                     (targetIds (visibility alert)))
         | USER \<Rightarrow>
             filter (\<lambda>u. user_id u \<in> set (targetIds (visibility alert)) \<and> user_isActive u)
               (Users db))
      in (Inr (uniqueUsers [] targetUsers), db))"

subsection \<open>createAlert\<close>

text \<open>
  \<open>new Alert({...})\<close> with the defaults of the alert schema; \<open>newId\<close> is the generated
  \<open>_id\<close> and \<open>now\<close> the reading of the \<open>startTime\<close> default.
\<close>

definition newAlert :: "objectId \<Rightarrow> objectId \<Rightarrow> CreateAlertRequest \<Rightarrow> time \<Rightarrow> IAlert" where
  "newAlert newId creator alertData now =
     \<lparr>alert_id = newId,
      title = req_title alertData,
      message = req_message alertData,
      severity = req_severity alertData,
      deliveryType = req_deliveryType alertData,
      reminderFrequencyMinutes =
        (case req_reminderFrequencyMinutes alertData of None \<Rightarrow> 120 | Some m \<Rightarrow> m),
      startTime = (case req_startTime alertData of None \<Rightarrow> now | Some t \<Rightarrow> t),
      expiryTime = req_expiryTime alertData,
      isActive = True,
      isReminderEnabled =
        (case req_isReminderEnabled alertData of None \<Rightarrow> True | Some b \<Rightarrow> b),
      visibility =
        \<lparr>visibilityType = visibilityType (req_visibility alertData),
         targetIds = targetIds (req_visibility alertData)\<rparr>,
      createdBy = creator,
      status = ACTIVE,
      alert_context = None\<rparr>"

text \<open>
  Saving a new alert: the alert schema's \<open>pre('save')\<close> hook, then the insertion. The
  schema's field validators and failures of the storage layer are not modelled.
\<close>

definition Alert_preSave :: "IAlert \<Rightarrow> time \<Rightarrow> IAlert" where
  "Alert_preSave a now =
     (if (case expiryTime a of None \<Rightarrow> False | Some e \<Rightarrow> e \<le> now) \<and> status a = ACTIVE
      then a\<lparr>status := EXPIRED, isActive := False\<rparr> else a)"

definition Alert_save :: "IAlert \<Rightarrow> time \<Rightarrow> (IAlert, 'w System) task" where
  "Alert_save a now db =
     (let saved = Alert_preSave a now in (Inr saved, db\<lparr>Alerts := Alerts db @ [saved]\<rparr>))"

definition createAlert ::
  "'w AlertService \<Rightarrow> objectId \<Rightarrow> CreateAlertRequest \<Rightarrow> objectId \<Rightarrow> time \<Rightarrow> time
     \<Rightarrow> (IAlert, 'w System) task" where
  "createAlert service creator alertData newId now saveTime =
     tryCatch
       (await (validateVisibilityTargets (req_visibility alertData)) (\<lambda>_.
          await (Alert_save (newAlert newId creator alertData now) saveTime) (\<lambda>alert.
            await (getTargetUsers alert) (\<lambda>targetUsers.
              await (notifyObserversWithContext (alertSubject service) alert targetUsers
                       \<lparr>action = Created, metadata = None\<rparr>) (\<lambda>_.
                resolve alert)))))
       (\<lambda>error. throw error)"

subsection \<open>The reminder sweep\<close>

text \<open>
  \<open>findUsersNeedingReminder\<close> of the preference schema, at the clock reading \<open>now\<close>: the
  preferences of the alert that are not read, are not snoozed or have a snooze that has
  elapsed, and were never reminded or were last reminded at or before the threshold; with
  \<open>populate('userId')\<close> each comes with its user document. Users are not deleted while
  their preferences exist; a preference whose user did not resolve would carry \<open>null\<close>,
  which the type \<open>IUser\<close> of the code using the result excludes, and is left out here.
\<close>

definition needsReminder :: "objectId \<Rightarrow> int \<Rightarrow> time \<Rightarrow> UserAlertPreference \<Rightarrow> bool" where
  "needsReminder alert reminderIntervalMinutes now p =
     (let reminderThreshold = now - reminderIntervalMinutes * 60 * 1000
      in alertId p = alert
         \<and> isRead p = False
         \<and> (isSnoozed p = False
              \<or> (isSnoozed p = True
                  \<and> (case snoozedUntil p of None \<Rightarrow> False | Some u \<Rightarrow> u \<le> now)))
         \<and> (case lastReminderSent p of None \<Rightarrow> True | Some l \<Rightarrow> l \<le> reminderThreshold))"

definition populateUser :: "IUser list \<Rightarrow> UserAlertPreference \<Rightarrow> (UserAlertPreference \<times> IUser) list" where
  "populateUser us p =
     (case find (\<lambda>u. user_id u = userId p) us of None \<Rightarrow> [] | Some u \<Rightarrow> [(p, u)])"

definition findUsersNeedingReminder ::
  "objectId \<Rightarrow> int \<Rightarrow> time \<Rightarrow> ((UserAlertPreference \<times> IUser) list, 'w System) task" where
  "findUsersNeedingReminder alert reminderIntervalMinutes now db =
     (Inr (concat (map (populateUser (Users db))
                     (filter (needsReminder alert reminderIntervalMinutes now)
                        (UserAlertPreferences db)))),
      db)"

text \<open>
  Mongoose refuses a \<open>save()\<close> of a document while an earlier \<open>save()\<close> of the same
  document has not completed (\<open>$__.saving\<close> is set): the call rejects with a
  \<open>ParallelSaveError\<close> and neither runs the hook nor writes. \<open>documentSave saving\<close> is an
  awaited \<open>save()\<close> on a document that has, or has not, a save in flight.
\<close>

definition ParallelSaveError :: exn where
  "ParallelSaveError = Error ''ParallelSaveError''"

definition documentSave ::
  "bool \<Rightarrow> UserAlertPreference \<Rightarrow> time \<Rightarrow> (UserAlertPreference, 'w System) task" where
  "documentSave saving p now db =
     (if saving then (Inl ParallelSaveError, db)
      else (case save p now (UserAlertPreferences db) of
              (saved, stored) \<Rightarrow> (Inr saved, db\<lparr>UserAlertPreferences := stored\<rparr>)))"

text \<open>
  The clock readings of the closure that handles one preference, in program order: by
  \<open>getCurrentState\<close>, by the state's \<open>canReceiveReminder\<close>, by \<open>recordReminderSent\<close>, by
  the hook of the save inside \<open>recordReminderSent\<close>, and by the hook of the save after it,
  should that hook run.
\<close>

record ReminderClock =
  stateTime :: time
  checkTime :: time
  stampTime :: time
  firstSaveTime :: time
  secondSaveTime :: time

text \<open>
  The closure of \<open>preferencesNeedingReminder.map\<close>. After a successful send it calls
  \<open>preference.recordReminderSent()\<close> without awaiting it and then awaits
  \<open>preference.save()\<close>: the save that \<open>recordReminderSent\<close> started is in flight when the
  second \<open>save()\<close> is called, so the second is refused and the closure rejects. The save in
  flight is carried out all the same; its write is placed before the rejection. Where the
  closure resolves, it resolves to the preference object as it leaves it.
\<close>

definition remindOne ::
  "'w AlertService \<Rightarrow> IAlert \<Rightarrow> ReminderClock \<Rightarrow> UserAlertPreference \<times> IUser
     \<Rightarrow> (UserAlertPreference, 'w System) task" where
  "remindOne service alert clock populated =
     (case populated of (preference, user) \<Rightarrow>
        (case canReceiveReminder preference (stateTime clock) (checkTime clock) of
           (True, preference1) \<Rightarrow>
             await (sendNotification (notificationStrategy service) alert user (deliveryType alert))
               (\<lambda>success.
                  if success then
                    (\<lambda>db.
                       (case recordReminderSent preference1 (stampTime clock)
                               (firstSaveTime clock) (UserAlertPreferences db) of
                          (preference2, stored) \<Rightarrow>
                            documentSave True preference2 (secondSaveTime clock)
                              (db\<lparr>UserAlertPreferences := stored\<rparr>)))
                  else resolve preference1)
         | (False, preference1) \<Rightarrow> resolve preference1))"

text \<open>\<open>clocks i\<close> are the readings of the closure for the preference at position \<open>i\<close>.\<close>

definition processReminderForAlert ::
  "'w AlertService \<Rightarrow> IAlert \<Rightarrow> time \<Rightarrow> (nat \<Rightarrow> ReminderClock) \<Rightarrow> (unit, 'w System) task" where
  "processReminderForAlert service alert queryTime clocks =
     tryCatch
       (await (findUsersNeedingReminder (alert_id alert) (reminderFrequencyMinutes alert)
                 queryTime)
          (\<lambda>preferencesNeedingReminder.
             if length preferencesNeedingReminder = 0 then resolve ()
             else
               await (promiseAll
                        (map (\<lambda>(i, populated). remindOne service alert (clocks i) populated)
                           (enumerate 0 preferencesNeedingReminder)))
                 (\<lambda>_.
                    let targetUsers = map snd preferencesNeedingReminder in
                    await (notifyObserversWithContext (alertSubject service) alert targetUsers
                             \<lparr>action = Reminder,
                              metadata = Some (length preferencesNeedingReminder)\<rparr>)
                      (\<lambda>_. resolve ()))))
       (\<lambda>error. resolve ())"

section \<open>Properties of the preference state machine\<close>

lemmas state_defs = getCurrentState_def isCurrentlySnoozed_def
  UnreadState_markAsRead_def UnreadState_snooze_def UnreadState_unsnooze_def
  UnreadState_canReceiveReminder_def
  ReadState_markAsRead_def ReadState_snooze_def ReadState_unsnooze_def
  ReadState_canReceiveReminder_def
  SnoozedState_markAsRead_def SnoozedState_snooze_def SnoozedState_unsnooze_def
  SnoozedState_canReceiveReminder_def

text \<open>
  Claim C2. For every preference and every current time, the derived logical state
  (\<open>getStateName\<close>, and \<open>getCurrentState\<close> with it) is READ when \<open>isRead\<close> holds; otherwise
  SNOOZED when \<open>isSnoozed\<close> holds and \<open>snoozedUntil\<close> is set and strictly in the future;
  otherwise UNREAD. A preference with \<open>isSnoozed\<close> but an elapsed \<open>snoozedUntil\<close> derives
  UNREAD.
\<close>

theorem getStateName_derived:
  "getStateName p now =
     (if isRead p then ''READ''
      else if isSnoozed p \<and> (\<exists>u. snoozedUntil p = Some u \<and> now < u) then ''SNOOZED''
      else ''UNREAD'')
   \<and> getCurrentState p now =
     (if isRead p then ReadState
      else if isSnoozed p \<and> (\<exists>u. snoozedUntil p = Some u \<and> now < u) then SnoozedState
      else UnreadState)"
  by (auto simp: getStateName_def getCurrentState_def isCurrentlySnoozed_def
           split: option.splits)

text \<open>
  Claim C1, as stated, fails: an unread preference whose \<open>isSnoozed\<close> flag is still set
  and whose \<open>snoozedUntil = 5\<close> has elapsed at time \<open>10\<close> derives UNREAD, so the context
  delegates to \<open>UnreadState.canReceiveReminder\<close>, which answers true and does not touch
  the preference: \<open>isSnoozed\<close> and \<open>snoozedUntil\<close> are not cleared.
\<close>

theorem canReceiveReminder_keeps_stale_snooze:
  "isSnoozed
     \<lparr>userId = ''u1'', alertId = ''a1'', isRead = False, isSnoozed = True,
      snoozedUntil = Some 5, lastReminderSent = None, reminderCount = 0\<rparr>
   \<and> snoozedUntil
     \<lparr>userId = ''u1'', alertId = ''a1'', isRead = False, isSnoozed = True,
      snoozedUntil = Some 5, lastReminderSent = None, reminderCount = 0\<rparr> = Some 5
   \<and> (5 :: int) \<le> 10
   \<and> fst (canReceiveReminder
     \<lparr>userId = ''u1'', alertId = ''a1'', isRead = False, isSnoozed = True,
      snoozedUntil = Some 5, lastReminderSent = None, reminderCount = 0\<rparr> 10 10)
   \<and> isSnoozed (snd (canReceiveReminder
     \<lparr>userId = ''u1'', alertId = ''a1'', isRead = False, isSnoozed = True,
      snoozedUntil = Some 5, lastReminderSent = None, reminderCount = 0\<rparr> 10 10))
   \<and> snoozedUntil (snd (canReceiveReminder
     \<lparr>userId = ''u1'', alertId = ''a1'', isRead = False, isSnoozed = True,
      snoozedUntil = Some 5, lastReminderSent = None, reminderCount = 0\<rparr> 10 10)) = Some 5"
  by (simp add: canReceiveReminder_def state_defs)

text \<open>
  Claim C1, amended. \<open>canReceiveReminder\<close> through the context answers false for a read
  preference and leaves it unchanged. When the state derived at the first clock reading
  is SNOOZED, it answers true exactly when \<open>snoozedUntil\<close> has elapsed at the second
  reading (the one \<open>SnoozedState.canReceiveReminder\<close> takes), and only then clears
  \<open>isSnoozed\<close> and \<open>snoozedUntil\<close>. When the derived state is UNREAD, which includes a
  stale \<open>isSnoozed\<close> flag with an elapsed window, it answers true exactly when the
  preference is not within an active snooze window and leaves the preference unchanged.
\<close>

theorem canReceiveReminder_by_state:
  "(isRead p \<longrightarrow> canReceiveReminder p now now' = (False, p))
 \<and> (getCurrentState p now = SnoozedState \<longrightarrow>
        canReceiveReminder p now now' =
          (if \<exists>u. snoozedUntil p = Some u \<and> u \<le> now'
           then (True, p\<lparr>isSnoozed := False, snoozedUntil := None\<rparr>) else (False, p)))
 \<and> (getCurrentState p now = UnreadState \<longrightarrow>
        canReceiveReminder p now now' = (\<not> isCurrentlySnoozed p now', p))"
  by (auto simp: canReceiveReminder_def state_defs Let_def split: option.splits)

theorem canReceiveReminder_by_state_witness:
  "isRead \<lparr>userId = ''u1'', alertId = ''a1'', isRead = True, isSnoozed = True,
      snoozedUntil = Some 50, lastReminderSent = None, reminderCount = 0\<rparr>
   \<and> fst (canReceiveReminder
        \<lparr>userId = ''u1'', alertId = ''a1'', isRead = True, isSnoozed = True,
         snoozedUntil = Some 50, lastReminderSent = None, reminderCount = 0\<rparr> 10 10) = False
   \<and> getCurrentState
        \<lparr>userId = ''u1'', alertId = ''a1'', isRead = False, isSnoozed = True,
         snoozedUntil = Some 50, lastReminderSent = None, reminderCount = 0\<rparr> 49 = SnoozedState
   \<and> canReceiveReminder
        \<lparr>userId = ''u1'', alertId = ''a1'', isRead = False, isSnoozed = True,
         snoozedUntil = Some 50, lastReminderSent = None, reminderCount = 0\<rparr> 49 50
      = (True,
        \<lparr>userId = ''u1'', alertId = ''a1'', isRead = False, isSnoozed = False,
         snoozedUntil = None, lastReminderSent = None, reminderCount = 0\<rparr>)
   \<and> getCurrentState
        \<lparr>userId = ''u1'', alertId = ''a1'', isRead = False, isSnoozed = True,
         snoozedUntil = Some 5, lastReminderSent = None, reminderCount = 0\<rparr> 10 = UnreadState
   \<and> fst (canReceiveReminder
        \<lparr>userId = ''u1'', alertId = ''a1'', isRead = False, isSnoozed = True,
         snoozedUntil = Some 5, lastReminderSent = None, reminderCount = 0\<rparr> 10 11) = True"
  using
    canReceiveReminder_by_state [of
      "\<lparr>userId = ''u1'', alertId = ''a1'', isRead = True, isSnoozed = True,
        snoozedUntil = Some 50, lastReminderSent = None, reminderCount = 0\<rparr>" 10 10]
    canReceiveReminder_by_state [of
      "\<lparr>userId = ''u1'', alertId = ''a1'', isRead = False, isSnoozed = True,
        snoozedUntil = Some 50, lastReminderSent = None, reminderCount = 0\<rparr>" 49 50]
    canReceiveReminder_by_state [of
      "\<lparr>userId = ''u1'', alertId = ''a1'', isRead = False, isSnoozed = True,
        snoozedUntil = Some 5, lastReminderSent = None, reminderCount = 0\<rparr>" 10 11]
  by (simp add: getCurrentState_def isCurrentlySnoozed_def)

text \<open>
  Claim C7, as stated, fails: \<open>unsnooze\<close> is offered whenever the stored \<open>isSnoozed\<close> flag
  is set, whatever the derived state. An UNREAD preference with a stale flag gets three
  actions, and a READ preference with the flag set gets \<open>unsnooze\<close>.
\<close>

theorem getAvailableActions_stale_flag:
  "getStateName
     \<lparr>userId = ''u1'', alertId = ''a1'', isRead = False, isSnoozed = True,
      snoozedUntil = Some 5, lastReminderSent = None, reminderCount = 0\<rparr> 10 = ''UNREAD''
   \<and> getAvailableActions
     \<lparr>userId = ''u1'', alertId = ''a1'', isRead = False, isSnoozed = True,
      snoozedUntil = Some 5, lastReminderSent = None, reminderCount = 0\<rparr> 10
     = [''markAsRead'', ''snooze'', ''unsnooze'']
   \<and> ''unsnooze'' \<notin> {''markAsRead'', ''snooze''}
   \<and> getStateName
     \<lparr>userId = ''u1'', alertId = ''a1'', isRead = True, isSnoozed = True,
      snoozedUntil = Some 50, lastReminderSent = None, reminderCount = 0\<rparr> 10 = ''READ''
   \<and> getAvailableActions
     \<lparr>userId = ''u1'', alertId = ''a1'', isRead = True, isSnoozed = True,
      snoozedUntil = Some 50, lastReminderSent = None, reminderCount = 0\<rparr> 10
     = [''unsnooze'']"
  by (simp add: getAvailableActions_def getStateName_def isCurrentlySnoozed_def)

text \<open>
  Claim C7, amended. The available actions are \<open>markAsRead, snooze\<close> when the derived
  state is UNREAD, \<open>markAsRead\<close> when it is SNOOZED and none when it is READ, followed by
  \<open>unsnooze\<close> exactly when the stored \<open>isSnoozed\<close> flag is set. So SNOOZED gives
  \<open>markAsRead, unsnooze\<close>, and UNREAD and READ give \<open>markAsRead, snooze\<close> and the empty
  list when the flag is clear.
\<close>

theorem getAvailableActions_by_state:
  "getAvailableActions p now =
     (if getStateName p now = ''UNREAD'' then [''markAsRead'', ''snooze'']
      else if getStateName p now = ''SNOOZED'' then [''markAsRead'']
      else []) @ (if isSnoozed p then [''unsnooze''] else [])"
  by (simp add: getAvailableActions_def getStateName_def isCurrentlySnoozed_def)

text \<open>
  Claim C8. For a preference whose derived state is READ, \<open>snooze\<close> through the context
  changes no field, for every number of hours: \<open>isRead\<close> stays true, a false \<open>isSnoozed\<close>
  stays false and an unset \<open>snoozedUntil\<close> stays unset.
\<close>

theorem snooze_read_noop:
  assumes "getCurrentState p now = ReadState"
  shows "snooze p hours now now' = p
       \<and> isRead (snooze p hours now now')
       \<and> (\<not> isSnoozed p \<longrightarrow> \<not> isSnoozed (snooze p hours now now'))
       \<and> (snoozedUntil p = None \<longrightarrow> snoozedUntil (snooze p hours now now') = None)"
proof -
  from assms have r: "isRead p"
    by (simp add: getCurrentState_def split: if_splits)
  have "snooze p hours now now' = p"
    using assms by (simp add: snooze_def ReadState_snooze_def)
  with r show ?thesis by simp
qed

theorem snooze_read_noop_witness:
  "getCurrentState
     \<lparr>userId = ''u1'', alertId = ''a1'', isRead = True, isSnoozed = False,
      snoozedUntil = None, lastReminderSent = None, reminderCount = 2\<rparr> 10 = ReadState
   \<and> snooze
     \<lparr>userId = ''u1'', alertId = ''a1'', isRead = True, isSnoozed = False,
      snoozedUntil = None, lastReminderSent = None, reminderCount = 2\<rparr> 24 10 11
     = \<lparr>userId = ''u1'', alertId = ''a1'', isRead = True, isSnoozed = False,
        snoozedUntil = None, lastReminderSent = None, reminderCount = 2\<rparr>"
proof -
  have h: "getCurrentState
     \<lparr>userId = ''u1'', alertId = ''a1'', isRead = True, isSnoozed = False,
      snoozedUntil = None, lastReminderSent = None, reminderCount = 2\<rparr> 10 = ReadState"
    by (simp add: getCurrentState_def)
  show ?thesis
    using h snooze_read_noop [OF h, of 24 11] by simp
qed

text \<open>
  Claim C9. In every derived state, \<open>unsnooze\<close> through the context clears \<open>isSnoozed\<close> and
  \<open>snoozedUntil\<close>, leaves \<open>isRead\<close> as it was, and a second \<open>unsnooze\<close> (at any later clock
  reading) gives the same preference as the first.
\<close>

theorem unsnooze_idempotent:
  "unsnooze p now = p\<lparr>isSnoozed := False, snoozedUntil := None\<rparr>
   \<and> isRead (unsnooze p now) = isRead p
   \<and> unsnooze (unsnooze p now) now' = unsnooze p now"
  by (simp add: unsnooze_def state_defs split: AlertState.splits)

section \<open>Properties of saving\<close>

lemma set_writeDocument: "set (writeDocument p db) \<subseteq> insert p (set db)"
  by (induction db) auto

lemma writeDocument_mem: "p \<in> set (writeDocument p db)"
  by (induction db) auto

lemma preSave_cleared:
  "isSnoozed p \<Longrightarrow> snoozedUntil p = Some u \<Longrightarrow> u \<le> now
     \<Longrightarrow> preSave p now = p\<lparr>isSnoozed := False, snoozedUntil := None\<rparr>"
  by (simp add: preSave_def)

lemma preSave_unsnoozed_null: "\<not> isSnoozed (preSave p now) \<Longrightarrow> snoozedUntil (preSave p now) = None"
  by (simp add: preSave_def Let_def split: if_splits)

lemma preSave_snoozedUntil_Some:
  assumes "snoozedUntil (preSave p now) = Some u"
  shows "isSnoozed (preSave p now) \<and> isSnoozed p \<and> snoozedUntil p = Some u \<and> now < u"
proof -
  from assms have s: "isSnoozed p"
    by (auto simp: preSave_def Let_def split: if_splits)
  from assms s obtain v where v: "snoozedUntil p = Some v"
    by (cases "snoozedUntil p") (auto simp: preSave_def)
  from assms s v have "\<not> v \<le> now"
    by (auto simp: preSave_def)
  with assms s v show ?thesis
    by (auto simp: preSave_def)
qed

text \<open>
  Claim C10. Every save of a preference stores what the pre-save hook returns. The hook
  clears \<open>isSnoozed\<close> and \<open>snoozedUntil\<close> when \<open>isSnoozed\<close> is set and \<open>snoozedUntil\<close> has
  elapsed at the time of saving; after the hook an unset \<open>isSnoozed\<close> goes with a null
  \<open>snoozedUntil\<close>; so a saved preference has a non-null \<open>snoozedUntil\<close> only when
  \<open>isSnoozed\<close> is set and that time was still in the future at the moment of saving. A
  collection in which a non-null \<open>snoozedUntil\<close> goes with \<open>isSnoozed\<close> stays so under
  \<open>save\<close>.
\<close>

theorem save_normalizes_snooze:
  "fst (save p now db) = preSave p now
 \<and> preSave p now \<in> set (snd (save p now db))
 \<and> (isSnoozed p \<and> (\<exists>u. snoozedUntil p = Some u \<and> u \<le> now)
      \<longrightarrow> \<not> isSnoozed (preSave p now) \<and> snoozedUntil (preSave p now) = None)
 \<and> (\<not> isSnoozed (preSave p now) \<longrightarrow> snoozedUntil (preSave p now) = None)
 \<and> (\<forall>u. snoozedUntil (preSave p now) = Some u \<longrightarrow>
        isSnoozed (preSave p now) \<and> isSnoozed p \<and> snoozedUntil p = Some u \<and> now < u)
 \<and> ((\<forall>q \<in> set db. snoozedUntil q \<noteq> None \<longrightarrow> isSnoozed q) \<longrightarrow>
      (\<forall>q \<in> set (snd (save p now db)). snoozedUntil q \<noteq> None \<longrightarrow> isSnoozed q))"
proof -
  have a: "fst (save p now db) = preSave p now"
    by (simp add: save_def Let_def)
  have b: "preSave p now \<in> set (snd (save p now db))"
    by (simp add: save_def Let_def writeDocument_mem)
  have c: "isSnoozed p \<and> (\<exists>u. snoozedUntil p = Some u \<and> u \<le> now)
      \<longrightarrow> \<not> isSnoozed (preSave p now) \<and> snoozedUntil (preSave p now) = None"
    by (auto simp: preSave_cleared)
  have d: "\<not> isSnoozed (preSave p now) \<longrightarrow> snoozedUntil (preSave p now) = None"
    by (simp add: preSave_unsnoozed_null)
  have e: "\<forall>u. snoozedUntil (preSave p now) = Some u \<longrightarrow>
        isSnoozed (preSave p now) \<and> isSnoozed p \<and> snoozedUntil p = Some u \<and> now < u"
    using preSave_snoozedUntil_Some by blast
  have f: "(\<forall>q \<in> set db. snoozedUntil q \<noteq> None \<longrightarrow> isSnoozed q) \<longrightarrow>
      (\<forall>q \<in> set (snd (save p now db)). snoozedUntil q \<noteq> None \<longrightarrow> isSnoozed q)"
  proof (intro impI ballI)
    fix q
    assume inv: "\<forall>q \<in> set db. snoozedUntil q \<noteq> None \<longrightarrow> isSnoozed q"
      and q: "q \<in> set (snd (save p now db))" and n: "snoozedUntil q \<noteq> None"
    from q have "q = preSave p now \<or> q \<in> set db"
      using set_writeDocument [of "preSave p now" db] by (auto simp: save_def Let_def)
    then show "isSnoozed q"
    proof
      assume "q = preSave p now"
      with n show ?thesis by (metis preSave_unsnoozed_null)
    next
      assume "q \<in> set db"
      with inv n show ?thesis by blast
    qed
  qed
  from a b c d e f show ?thesis by blast
qed

theorem save_normalizes_snooze_witness:
  "isSnoozed \<lparr>userId = ''u1'', alertId = ''a1'', isRead = False, isSnoozed = True,
      snoozedUntil = Some 5, lastReminderSent = None, reminderCount = 0\<rparr>
   \<and> snoozedUntil \<lparr>userId = ''u1'', alertId = ''a1'', isRead = False, isSnoozed = True,
      snoozedUntil = Some 5, lastReminderSent = None, reminderCount = 0\<rparr> = Some 5
   \<and> (5 :: int) \<le> 10
   \<and> \<not> isSnoozed (fst (save \<lparr>userId = ''u1'', alertId = ''a1'', isRead = False,
        isSnoozed = True, snoozedUntil = Some 5, lastReminderSent = None,
        reminderCount = 0\<rparr> 10 []))
   \<and> snoozedUntil (fst (save \<lparr>userId = ''u1'', alertId = ''a1'', isRead = False,
        isSnoozed = True, snoozedUntil = Some 5, lastReminderSent = None,
        reminderCount = 0\<rparr> 10 [])) = None"
proof -
  let ?p = "\<lparr>userId = ''u1'', alertId = ''a1'', isRead = False, isSnoozed = True,
      snoozedUntil = Some 5, lastReminderSent = None, reminderCount = 0\<rparr>"
  have h: "isSnoozed ?p \<and> (\<exists>u. snoozedUntil ?p = Some u \<and> u \<le> 10)"
    by simp
  have s: "fst (save ?p 10 []) = preSave ?p 10"
    using save_normalizes_snooze [of ?p 10 "[]"] by (rule conjunct1)
  have "\<not> isSnoozed (preSave ?p 10) \<and> snoozedUntil (preSave ?p 10) = None"
    using h save_normalizes_snooze [of ?p 10 "[]"] by blast
  with s show ?thesis by simp
qed

section \<open>Properties of the event fan-out\<close>

lemma promiseAll_guarded:
  "promiseAll (map (\<lambda>observer. tryCatch (observer alert users) (\<lambda>error. resolve ())) observers) s
     = (Inr (replicate (length observers) ()),
        foldl (\<lambda>s observer. snd (observer alert users s)) s observers)"
proof (induction observers arbitrary: s)
  case Nil
  show ?case by simp
next
  case (Cons ob obs)
  obtain r s' where ob: "ob alert users s = (r, s')"
    by (cases "ob alert users s")
  have guarded: "tryCatch (ob alert users) (\<lambda>error. resolve ()) s = (Inr (), s')"
    using ob by (cases r) (simp_all add: tryCatch_def resolve_def)
  show ?case
    using Cons.IH [of s'] ob guarded by simp
qed

lemma notifyObservers_result:
  "notifyObservers observers alert users s
     = (Inr (), foldl (\<lambda>s observer. snd (observer alert users s)) s observers)"
proof (cases "observers = []")
  case True
  then show ?thesis by (simp add: notifyObservers_def resolve_def)
next
  case False
  then show ?thesis
    by (simp add: notifyObservers_def tryCatch_def await_def resolve_def promiseAll_guarded)
qed

text \<open>
  Claim C3. For every alert, recipient list and list of registered observers, the fan-out
  (\<open>notifyObservers\<close>, and \<open>notifyObserversWithContext\<close> through it) runs the \<open>update\<close> of
  every registered observer: the state it leaves is the state after all of them, in
  order, whether or not any of them threw. The fan-out itself never throws, and what it
  resolves to is the unit value, whatever the observers did.
\<close>

theorem notifyObservers_isolates_failures:
  "fst (notifyObservers observers alert users s) = Inr ()
 \<and> snd (notifyObservers observers alert users s)
     = foldl (\<lambda>s observer. snd (observer alert users s)) s observers
 \<and> fst (notifyObserversWithContext observers alert users ctx s) = Inr ()
 \<and> snd (notifyObserversWithContext observers alert users ctx s)
     = foldl (\<lambda>s observer. snd (observer (alert\<lparr>alert_context := Some ctx\<rparr>) users s)) s observers"
  by (simp add: notifyObserversWithContext_def notifyObservers_result)

section \<open>Properties of bulk dispatch\<close>

lemma sendNotification_registered:
  assumes "channels type = Some channel"
  shows "sendNotification channels alert user type s
           = (Inr (fst (send channel alert user s) = Inr True), snd (send channel alert user s))"
proof (cases "send channel alert user s")
  case (Pair r s')
  show ?thesis
  proof (cases r)
    case (Inl e)
    with Pair assms show ?thesis
      by (simp add: sendNotification_def tryCatch_def await_def resolve_def)
  next
    case (Inr b)
    with Pair assms show ?thesis
      by (simp add: sendNotification_def tryCatch_def await_def resolve_def)
  qed
qed

lemma channelOutcomes_length: "length (fst (channelOutcomes channel alert us s)) = length us"
  by (induction us arbitrary: s) (simp_all add: split_beta)

lemma channelOutcomes_append:
  "channelOutcomes channel alert (us @ vs) s =
     (case channelOutcomes channel alert us s of (outs, s') \<Rightarrow>
        (case channelOutcomes channel alert vs s' of (outs', s'') \<Rightarrow> (outs @ outs', s'')))"
  by (induction us arbitrary: s) (simp_all add: split_beta)

lemma promiseAll_bulkSendOne:
  assumes "channels type = Some channel"
  shows "promiseAll (map (bulkSendOne channels alert type) us) (s, acc) =
     (case channelOutcomes channel alert us s of (outs, s') \<Rightarrow>
        (Inr (zip us outs),
         (s', \<lparr>successful = successful acc + length (filter (\<lambda>b. b) outs),
               failed = failed acc + length (filter Not outs),
               results = results acc @ zip us outs\<rparr>)))"
proof (induction us arbitrary: s acc)
  case Nil
  show ?case by simp
next
  case (Cons u us)
  obtain r s1 where snd1: "send channel alert u s = (r, s1)"
    by (cases "send channel alert u s")
  let ?b = "r = Inr True"
  let ?acc1 = "acc\<lparr>results := results acc @ [(u, ?b)],
                   successful := (if ?b then successful acc + 1 else successful acc),
                   failed := (if ?b then failed acc else failed acc + 1)\<rparr>"
  have one: "bulkSendOne channels alert type u (s, acc) = (Inr (u, ?b), (s1, ?acc1))"
    using assms sendNotification_registered [of channels type channel alert u s] snd1
    by (simp add: bulkSendOne_def)
  obtain outs s2 where rest: "channelOutcomes channel alert us s1 = (outs, s2)"
    by (cases "channelOutcomes channel alert us s1")
  have ih: "promiseAll (map (bulkSendOne channels alert type) us) (s1, ?acc1) =
        (Inr (zip us outs),
         (s2, \<lparr>successful = successful ?acc1 + length (filter (\<lambda>b. b) outs),
               failed = failed ?acc1 + length (filter Not outs),
               results = results ?acc1 @ zip us outs\<rparr>))"
    using Cons.IH [of s1 ?acc1] rest by simp
  show ?case
    using one ih snd1 rest by simp
qed

lemma bulkBatches_outcomes:
  assumes "channels type = Some channel"
  shows "bulkBatches channels alert users type i (s, acc) =
     (case channelOutcomes channel alert (drop i users) s of (outs, s') \<Rightarrow>
        (Inr (),
         (s', \<lparr>successful = successful acc + length (filter (\<lambda>b. b) outs),
               failed = failed acc + length (filter Not outs),
               results = results acc @ zip (drop i users) outs\<rparr>)))"
proof (induction "length users - i" arbitrary: i s acc rule: less_induct)
  case less
  show ?case
  proof (cases "i < length users")
    case False
    then show ?thesis by simp
  next
    case True
    let ?batch = "slice users i (i + batchSize)"
    let ?rest = "drop (i + batchSize) users"
    have split: "drop i users = ?batch @ ?rest"
      by (simp add: slice_def add.commute [of i] flip: drop_drop)
    obtain outs1 s1 where o1: "channelOutcomes channel alert ?batch s = (outs1, s1)"
      by (cases "channelOutcomes channel alert ?batch s")
    obtain outs2 s2 where o2: "channelOutcomes channel alert ?rest s1 = (outs2, s2)"
      by (cases "channelOutcomes channel alert ?rest s1")
    have len1: "length outs1 = length ?batch"
      using channelOutcomes_length [of channel alert ?batch s] o1 by simp
    let ?acc1 = "\<lparr>successful = successful acc + length (filter (\<lambda>b. b) outs1),
               failed = failed acc + length (filter Not outs1),
               results = results acc @ zip ?batch outs1\<rparr>"
    have batch: "promiseAll (map (bulkSendOne channels alert type) ?batch) (s, acc)
                   = (Inr (zip ?batch outs1), (s1, ?acc1))"
      using assms promiseAll_bulkSendOne [of channels type channel alert ?batch s acc] o1
      by simp
    have smaller: "length users - (i + batchSize) < length users - i"
      using True by (simp add: batchSize_def)
    have next_: "bulkBatches channels alert users type (i + batchSize) (s1, ?acc1) =
        (Inr (),
         (s2, \<lparr>successful = successful ?acc1 + length (filter (\<lambda>b. b) outs2),
               failed = failed ?acc1 + length (filter Not outs2),
               results = results ?acc1 @ zip ?rest outs2\<rparr>))"
      using less [OF smaller, of s1 ?acc1] o2 by simp
    have all: "channelOutcomes channel alert (drop i users) s = (outs1 @ outs2, s2)"
      using o1 o2 by (simp add: split channelOutcomes_append)
    have step: "bulkBatches channels alert users type i (s, acc)
                  = bulkBatches channels alert users type (i + batchSize) (s1, ?acc1)"
      using True batch by (subst bulkBatches.simps) (simp add: Let_def)
    have zips: "zip (drop i users) (outs1 @ outs2) = zip ?batch outs1 @ zip ?rest outs2"
      using len1 by (simp add: split)
    show ?thesis
      using step next_ all zips by simp
  qed
qed

lemma count_successes:
  "length (filter (\<lambda>b. b) outs) = length outs - length (filter Not outs)"
  using sum_length_filter_compl [of "\<lambda>b. b" outs] by (simp add: comp_def)

text \<open>
  Claim C4. For every alert, every list of \<open>N\<close> recipients and every registered channel,
  let \<open>K\<close> be the number of recipients for whom the channel's send fails (returns false or
  throws). Bulk dispatch never throws; it resolves to \<open>successful = N - K\<close> and
  \<open>failed = K\<close>, with one outcome entry for each recipient, so that a failure for one
  recipient keeps no other recipient's send from happening; and it leaves the state that
  the sends to all recipients leave.
\<close>

theorem sendBulkNotifications_counts:
  assumes "channels type = Some channel"
  shows "length (fst (channelOutcomes channel alert users s)) = length users
   \<and> fst (sendBulkNotifications channels alert users type s) =
       Inr \<lparr>successful =
              length users - length (filter Not (fst (channelOutcomes channel alert users s))),
            failed = length (filter Not (fst (channelOutcomes channel alert users s))),
            results = zip users (fst (channelOutcomes channel alert users s))\<rparr>
   \<and> snd (sendBulkNotifications channels alert users type s)
       = snd (channelOutcomes channel alert users s)"
proof -
  obtain outs s' where o: "channelOutcomes channel alert users s = (outs, s')"
    by (cases "channelOutcomes channel alert users s")
  have len: "length outs = length users"
    using channelOutcomes_length [of channel alert users s] o by simp
  have loop: "bulkBatches channels alert users type 0
                (s, \<lparr>successful = 0, failed = 0, results = []\<rparr>) =
        (Inr (),
         (s', \<lparr>successful = length (filter (\<lambda>b. b) outs),
               failed = length (filter Not outs),
               results = zip users outs\<rparr>))"
    using assms o
      bulkBatches_outcomes [of channels type channel alert users 0 s
        "\<lparr>successful = 0, failed = 0, results = []\<rparr>"]
    by simp
  have "sendBulkNotifications channels alert users type s =
        (Inr \<lparr>successful = length users - length (filter Not outs),
               failed = length (filter Not outs),
               results = zip users outs\<rparr>, s')"
    using loop len by (simp add: sendBulkNotifications_def count_successes)
  with o len show ?thesis by simp
qed

theorem sendBulkNotifications_counts_witness:
  "(Map.empty(IN_APP \<mapsto>
       \<lparr>send = (\<lambda>alert user s.
                  if user_id user = ''u2'' then (Inr False, s)
                  else if user_id user = ''u3'' then (Inl (Error ''unreachable''), s)
                  else (Inr True, s @ [user_id user])),
        getType = IN_APP\<rparr>)) IN_APP
     = Some
       \<lparr>send = (\<lambda>alert user s.
                  if user_id user = ''u2'' then (Inr False, s)
                  else if user_id user = ''u3'' then (Inl (Error ''unreachable''), s)
                  else (Inr True, s @ [user_id user])),
        getType = IN_APP\<rparr>
   \<and> sendBulkNotifications
       (Map.empty(IN_APP \<mapsto>
         \<lparr>send = (\<lambda>alert user s.
                    if user_id user = ''u2'' then (Inr False, s)
                    else if user_id user = ''u3'' then (Inl (Error ''unreachable''), s)
                    else (Inr True, s @ [user_id user])),
          getType = IN_APP\<rparr>))
       \<lparr>alert_id = ''a1'', title = ''Maintenance'', message = ''Tonight'', severity = INFO,
        deliveryType = IN_APP, reminderFrequencyMinutes = 120, startTime = 0,
        expiryTime = None, isActive = True, isReminderEnabled = True,
        visibility = \<lparr>visibilityType = ORGANIZATION, targetIds = []\<rparr>,
        createdBy = ''admin'', status = ACTIVE, alert_context = None\<rparr>
       [\<lparr>user_id = ''u1'', user_name = ''Ann'', user_teamId = None, user_isActive = True\<rparr>,
        \<lparr>user_id = ''u2'', user_name = ''Bob'', user_teamId = None, user_isActive = True\<rparr>,
        \<lparr>user_id = ''u3'', user_name = ''Cy'', user_teamId = None, user_isActive = True\<rparr>,
        \<lparr>user_id = ''u4'', user_name = ''Di'', user_teamId = None, user_isActive = True\<rparr>]
       IN_APP []
     = (Inr \<lparr>successful = 2, failed = 2,
            results =
              [(\<lparr>user_id = ''u1'', user_name = ''Ann'', user_teamId = None, user_isActive = True\<rparr>, True),
               (\<lparr>user_id = ''u2'', user_name = ''Bob'', user_teamId = None, user_isActive = True\<rparr>, False),
               (\<lparr>user_id = ''u3'', user_name = ''Cy'', user_teamId = None, user_isActive = True\<rparr>, False),
               (\<lparr>user_id = ''u4'', user_name = ''Di'', user_teamId = None, user_isActive = True\<rparr>, True)]\<rparr>,
        [''u1'', ''u4''])"
proof -
  let ?ch = "\<lparr>send = (\<lambda>alert user s.
                  if user_id user = ''u2'' then (Inr False, s)
                  else if user_id user = ''u3'' then (Inl (Error ''unreachable''), s)
                  else (Inr True, s @ [user_id user])),
        getType = IN_APP\<rparr> :: string list INotificationChannel"
  let ?alert = "\<lparr>alert_id = ''a1'', title = ''Maintenance'', message = ''Tonight'', severity = INFO,
        deliveryType = IN_APP, reminderFrequencyMinutes = 120, startTime = 0,
        expiryTime = None, isActive = True, isReminderEnabled = True,
        visibility = \<lparr>visibilityType = ORGANIZATION, targetIds = []\<rparr>,
        createdBy = ''admin'', status = ACTIVE, alert_context = None\<rparr>"
  let ?users = "[\<lparr>user_id = ''u1'', user_name = ''Ann'', user_teamId = None, user_isActive = True\<rparr>,
        \<lparr>user_id = ''u2'', user_name = ''Bob'', user_teamId = None, user_isActive = True\<rparr>,
        \<lparr>user_id = ''u3'', user_name = ''Cy'', user_teamId = None, user_isActive = True\<rparr>,
        \<lparr>user_id = ''u4'', user_name = ''Di'', user_teamId = None, user_isActive = True\<rparr>]"
  have h: "(Map.empty(IN_APP \<mapsto> ?ch)) IN_APP = Some ?ch"
    by simp
  have outs: "channelOutcomes ?ch ?alert ?users [] = ([True, False, False, True], [''u1'', ''u4''])"
    by simp
  show ?thesis
    using h outs
      sendBulkNotifications_counts [of "Map.empty(IN_APP \<mapsto> ?ch)" IN_APP ?ch ?alert ?users "[]"]
    by (simp add: prod_eq_iff)
qed

section \<open>Properties of visibility validation\<close>

lemma validateVisibilityTargets_state: "snd (validateVisibilityTargets v db) = db"
  by (simp add: validateVisibilityTargets_def await_def resolve_def throw_def
        Team_find_in_def User_find_in_def)

lemma validateVisibilityTargets_organization:
  "visibilityType v = ORGANIZATION \<Longrightarrow> validateVisibilityTargets v db = (Inr (), db)"
  by (simp add: validateVisibilityTargets_def resolve_def)

lemma validateVisibilityTargets_fails_iff:
  "(\<exists>e. fst (validateVisibilityTargets v db) = Inl e) \<longleftrightarrow>
     (visibilityType v = TEAM \<and>
        length (filter (\<lambda>t. team_id t \<in> set (targetIds v)) (Teams db)) \<noteq> length (targetIds v))
   \<or> (visibilityType v = USER \<and>
        length (filter (\<lambda>u. user_id u \<in> set (targetIds v)) (Users db)) \<noteq> length (targetIds v))"
  by (cases "visibilityType v")
     (simp_all add: validateVisibilityTargets_def await_def resolve_def throw_def
        Team_find_in_def User_find_in_def)

text \<open>
  With unique \<open>_id\<close>s in the collection, a target that does not resolve makes the number
  of documents found smaller than the number of targets.
\<close>

lemma found_less_when_unresolved:
  assumes d: "distinct (map key docs)" and t: "t \<in> set ids" and u: "t \<notin> key ` set docs"
  shows "length (filter (\<lambda>x. key x \<in> set ids) docs) < length ids"
proof -
  let ?found = "filter (\<lambda>x. key x \<in> set ids) docs"
  have dist: "distinct (map key ?found)"
    using d by (simp add: distinct_map_filter)
  have sub: "set (map key ?found) \<subseteq> set ids - {t}"
    using u by auto
  have "length ?found = card (set (map key ?found))"
    using dist distinct_card [of "map key ?found"] by simp
  also have "\<dots> \<le> card (set ids - {t})"
    using sub by (intro card_mono) auto
  also have "\<dots> < card (set ids)"
    using t by (intro psubset_card_mono) auto
  also have "\<dots> \<le> length ids"
    by (rule card_length)
  finally show ?thesis .
qed

lemma validateVisibilityTargets_unresolved_team:
  assumes "visibilityType v = TEAM" and "distinct (map team_id (Teams db))"
    and "t \<in> set (targetIds v)" and "t \<notin> team_id ` set (Teams db)"
  shows "validateVisibilityTargets v db = (Inl (Error ''One or more team IDs are invalid''), db)"
  using assms found_less_when_unresolved [of team_id "Teams db" t "targetIds v"]
  by (simp add: validateVisibilityTargets_def await_def resolve_def throw_def Team_find_in_def)

lemma validateVisibilityTargets_unresolved_user:
  assumes "visibilityType v = USER" and "distinct (map user_id (Users db))"
    and "t \<in> set (targetIds v)" and "t \<notin> user_id ` set (Users db)"
  shows "validateVisibilityTargets v db = (Inl (Error ''One or more user IDs are invalid''), db)"
  using assms found_less_when_unresolved [of user_id "Users db" t "targetIds v"]
  by (simp add: validateVisibilityTargets_def await_def resolve_def throw_def User_find_in_def)

lemma createAlert_invalid_not_persisted:
  assumes "fst (validateVisibilityTargets (req_visibility alertData) db) = Inl e"
  shows "createAlert service creator alertData newId now saveTime db = (Inl e, db)"
proof -
  have "validateVisibilityTargets (req_visibility alertData) db = (Inl e, db)"
    using assms validateVisibilityTargets_state [of "req_visibility alertData" db]
    by (simp add: prod_eq_iff)
  then show ?thesis
    by (simp add: createAlert_def tryCatch_def await_def throw_def)
qed

text \<open>
  Claim C5 does not hold of the code: validation compares the number of documents found
  with the number of target ids, so a Team scope that names the existing team \<open>t1\<close> twice
  is rejected although every target resolves, and the alert is not created.
\<close>

theorem validateVisibilityTargets_rejects_repeated_target:
  "set (targetIds \<lparr>visibilityType = TEAM, targetIds = [''t1'', ''t1'']\<rparr>)
     = team_id ` set (Teams
        \<lparr>Teams = [\<lparr>team_id = ''t1'', team_name = ''Engineering''\<rparr>], Users = [], Alerts = [],
         UserAlertPreferences = [], world = ()\<rparr>)
   \<and> validateVisibilityTargets \<lparr>visibilityType = TEAM, targetIds = [''t1'', ''t1'']\<rparr>
     \<lparr>Teams = [\<lparr>team_id = ''t1'', team_name = ''Engineering''\<rparr>], Users = [], Alerts = [],
      UserAlertPreferences = [], world = ()\<rparr>
   = (Inl (Error ''One or more team IDs are invalid''),
      \<lparr>Teams = [\<lparr>team_id = ''t1'', team_name = ''Engineering''\<rparr>], Users = [], Alerts = [],
       UserAlertPreferences = [], world = ()\<rparr>)"
  by (simp add: validateVisibilityTargets_def await_def resolve_def throw_def Team_find_in_def)

section \<open>Properties of the reminder sweep\<close>




subsection \<open>One closure\<close>




subsection \<open>Documents in the store\<close>




subsection \<open>The closures of a sweep, one after the other\<close>




subsection \<open>What one closure does to the store\<close>



subsection \<open>The sweep\<close>







text \<open>
  When a closure rejects, the sweep catches the rejection and the fan-out that would
  follow the closures does not run.
\<close>

lemma processReminderForAlert_skips_fanout:
  assumes found: "fst (findUsersNeedingReminder (alert_id alert) (reminderFrequencyMinutes alert)
                       queryTime db) = Inr found"
    and rejected: "fst (promiseAll
                     (map (\<lambda>(i, populated). remindOne service alert (clocks i) populated)
                        (enumerate 0 found)) db) = Inl e"
  shows "processReminderForAlert service alert queryTime clocks db =
           (Inr (),
            snd (promiseAll
                   (map (\<lambda>(i, populated). remindOne service alert (clocks i) populated)
                      (enumerate 0 found)) db))"
proof -
  have query: "findUsersNeedingReminder (alert_id alert) (reminderFrequencyMinutes alert)
                 queryTime db = (Inr found, db)"
    using found by (simp add: findUsersNeedingReminder_def)
  have "found \<noteq> []"
    using rejected by auto
  with query rejected show ?thesis
    by (cases "promiseAll
                 (map (\<lambda>(i, populated). remindOne service alert (clocks i) populated)
                    (enumerate 0 found)) db")
       (simp add: processReminderForAlert_def tryCatch_def await_def resolve_def)
qed



end
